theory Spec2Isabelle
  imports Main
begin

section \<open>The activity sign-up backend (src/app.py)\<close>

text \<open>
  The application keeps three module-level dictionaries: \<open>activities\<close>, \<open>teachers\<close>
  and \<open>sessions\<close>. A handler reads and mutates them in place; here every handler takes the
  three dictionaries as one record and returns its result together with the dictionaries as
  they are when the handler returns or raises.
\<close>

subsection \<open>Data\<close>

text \<open>One value of the \<open>activities\<close> dictionary: a dict with four fixed keys.\<close>

record activity =
  description :: string
  schedule :: string
  max_participants :: int
  participants :: "string list"

record app_state =
  activities :: "string \<rightharpoonup> activity"
  teachers :: "string \<rightharpoonup> string"
  sessions :: "string \<rightharpoonup> string"

text \<open>
  What a handler reads of a Starlette \<open>Request\<close>: its cookies and its headers. The header
  mapping is indexed by the header name as the source spells it (Starlette compares header
  names without regard to case).
\<close>

record request =
  cookies :: "string \<rightharpoonup> string"
  headers :: "string \<rightharpoonup> string"

text \<open>
  The login payload is declared \<open>payload: dict\<close>, so its values are arbitrary decoded JSON.
  A JSON number is represented by an integer: for the three operations the handler applies
  to a field (truth value, hashing, comparison with a string) a non-integral number behaves
  like a non-zero integer.
\<close>

datatype pyval =
    PNone
  | PBool bool
  | PNum int
  | PStr string
  | PList "pyval list"
  | PDict "(string \<times> pyval) list"

text \<open>
  What a handler can raise: an \<open>HTTPException\<close> with its status code and detail, or the
  \<open>TypeError\<close> of hashing a list or a dict (which the framework answers with status 500).
\<close>

datatype error = HTTPException nat string | TypeError

text \<open>The JSON object a handler returns, as its key/value pairs in order.\<close>

type_synonym reply = "(string \<times> string) list"

text \<open>The names the specification gives to the six failures.\<close>

abbreviation Unauthenticated :: error where
  "Unauthenticated \<equiv> HTTPException 401 ''Admin authentication required''"

abbreviation NotFound :: error where
  "NotFound \<equiv> HTTPException 404 ''Activity not found''"

abbreviation AlreadySignedUp :: error where
  "AlreadySignedUp \<equiv> HTTPException 400 ''Student is already signed up''"

abbreviation NotSignedUp :: error where
  "NotSignedUp \<equiv> HTTPException 400 ''Student is not signed up for this activity''"

abbreviation MissingField :: error where
  "MissingField \<equiv> HTTPException 400 ''username and password required''"

abbreviation InvalidCredentials :: error where
  "InvalidCredentials \<equiv> HTTPException 401 ''invalid credentials''"

subsection \<open>Python primitives the handlers use\<close>

text \<open>\<open>not v\<close> is \<open>\<not> truthy v\<close>.\<close>

fun truthy :: "pyval \<Rightarrow> bool" where
  "truthy PNone = False"
| "truthy (PBool b) = b"
| "truthy (PNum n) = (n \<noteq> 0)"
| "truthy (PStr s) = (s \<noteq> [])"
| "truthy (PList xs) = (xs \<noteq> [])"
| "truthy (PDict kvs) = (kvs \<noteq> [])"

text \<open>\<open>x in d\<close> and \<open>d.get(x)\<close> hash \<open>x\<close> first; lists and dicts have no hash.\<close>

fun hashable :: "pyval \<Rightarrow> bool" where
  "hashable (PList xs) = False"
| "hashable (PDict kvs) = False"
| "hashable v = True"

text \<open>\<open>payload.get(k)\<close>: the value, or \<open>None\<close> when the key is absent.\<close>

definition dict_get :: "(string \<rightharpoonup> pyval) \<Rightarrow> string \<Rightarrow> pyval" where
  "dict_get d k = (case d k of None \<Rightarrow> PNone | Some v \<Rightarrow> v)"

text \<open>
  \<open>not token\<close> for an \<open>Optional[str]\<close>: true for \<open>None\<close> and for the empty string.
\<close>

fun truthy_opt :: "string option \<Rightarrow> bool" where
  "truthy_opt None = False"
| "truthy_opt (Some t) = (t \<noteq> [])"

subsection \<open>The module-level state\<close>

definition seed_activities :: "string \<rightharpoonup> activity" where
  "seed_activities = [
     ''Chess Club'' \<mapsto> \<lparr>
        description = ''Learn strategies and compete in chess tournaments'',
        schedule = ''Fridays, 3:30 PM - 5:00 PM'',
        max_participants = 12,
        participants = [''michael@mergington.edu'', ''daniel@mergington.edu'']\<rparr>,
     ''Programming Class'' \<mapsto> \<lparr>
        description = ''Learn programming fundamentals and build software projects'',
        schedule = ''Tuesdays and Thursdays, 3:30 PM - 4:30 PM'',
        max_participants = 20,
        participants = [''emma@mergington.edu'', ''sophia@mergington.edu'']\<rparr>,
     ''Gym Class'' \<mapsto> \<lparr>
        description = ''Physical education and sports activities'',
        schedule = ''Mondays, Wednesdays, Fridays, 2:00 PM - 3:00 PM'',
        max_participants = 30,
        participants = [''john@mergington.edu'', ''olivia@mergington.edu'']\<rparr>,
     ''Soccer Team'' \<mapsto> \<lparr>
        description = ''Join the school soccer team and compete in matches'',
        schedule = ''Tuesdays and Thursdays, 4:00 PM - 5:30 PM'',
        max_participants = 22,
        participants = [''liam@mergington.edu'', ''noah@mergington.edu'']\<rparr>,
     ''Basketball Team'' \<mapsto> \<lparr>
        description = ''Practice and play basketball with the school team'',
        schedule = ''Wednesdays and Fridays, 3:30 PM - 5:00 PM'',
        max_participants = 15,
        participants = [''ava@mergington.edu'', ''mia@mergington.edu'']\<rparr>,
     ''Art Club'' \<mapsto> \<lparr>
        description = ''Explore your creativity through painting and drawing'',
        schedule = ''Thursdays, 3:30 PM - 5:00 PM'',
        max_participants = 15,
        participants = [''amelia@mergington.edu'', ''harper@mergington.edu'']\<rparr>,
     ''Drama Club'' \<mapsto> \<lparr>
        description = ''Act, direct, and produce plays and performances'',
        schedule = ''Mondays and Wednesdays, 4:00 PM - 5:30 PM'',
        max_participants = 20,
        participants = [''ella@mergington.edu'', ''scarlett@mergington.edu'']\<rparr>,
     ''Math Club'' \<mapsto> \<lparr>
        description = ''Solve challenging problems and participate in math competitions'',
        schedule = ''Tuesdays, 3:30 PM - 4:30 PM'',
        max_participants = 10,
        participants = [''james@mergington.edu'', ''benjamin@mergington.edu'']\<rparr>,
     ''Debate Team'' \<mapsto> \<lparr>
        description = ''Develop public speaking and argumentation skills'',
        schedule = ''Fridays, 4:00 PM - 5:30 PM'',
        max_participants = 12,
        participants = [''charlotte@mergington.edu'', ''henry@mergington.edu'']\<rparr>]"

text \<open>The three dictionaries as the module body leaves them, before the startup event.\<close>

definition module_state :: app_state where
  "module_state =
     \<lparr>activities = seed_activities, teachers = Map.empty, sessions = Map.empty\<rparr>"

text \<open>
  \<open>load_teachers\<close> replaces \<open>teachers\<close> by what \<open>json.load\<close> returns for
  \<open>teachers.json\<close>, or by the empty dictionary when opening or parsing the file raises. The
  file is not part of the sources: its decoded content is the parameter \<open>file\<close>
  (\<open>None\<close> when reading it raises), a JSON object from user names to passwords.
\<close>

definition load_teachers :: "(string \<rightharpoonup> string) option \<Rightarrow> app_state \<Rightarrow> app_state" where
  "load_teachers file s =
     (case file of
        Some t \<Rightarrow> s\<lparr>teachers := t\<rparr>
      | None \<Rightarrow> s\<lparr>teachers := Map.empty\<rparr>)"

definition startup_event :: "(string \<rightharpoonup> string) option \<Rightarrow> app_state \<Rightarrow> app_state" where
  "startup_event file s = load_teachers file s"

subsection \<open>Authentication helpers\<close>

definition get_token_from_request :: "request \<Rightarrow> string option" where
  "get_token_from_request r =
     (let token = cookies r ''admin_token''
      in if \<not> truthy_opt token then headers r ''X-Admin-Token'' else token)"

definition require_teacher :: "request \<Rightarrow> app_state \<Rightarrow> error + string" where
  "require_teacher r s =
     (let token = get_token_from_request r
      in if \<not> truthy_opt token then Inl Unauthenticated
         else case token of
                None \<Rightarrow> Inl Unauthenticated
              | Some t \<Rightarrow>
                  (case sessions s t of
                     None \<Rightarrow> Inl Unauthenticated
                   | Some username \<Rightarrow> Inr username))"

subsection \<open>Handlers\<close>

definition get_activities :: "app_state \<Rightarrow> (string \<rightharpoonup> activity)" where
  "get_activities s = activities s"

definition signup_for_activity ::
  "string \<Rightarrow> string \<Rightarrow> request \<Rightarrow> app_state \<Rightarrow> (error + reply) \<times> app_state" where
  "signup_for_activity activity_name email r s =
     (case require_teacher r s of
        Inl e \<Rightarrow> (Inl e, s)
      | Inr _ \<Rightarrow>
          (case activities s activity_name of
             None \<Rightarrow> (Inl NotFound, s)
           | Some a \<Rightarrow>
               if email \<in> set (participants a) then (Inl AlreadySignedUp, s)
               else (Inr [(''message'', ''Signed up '' @ email @ '' for '' @ activity_name)],
                     s\<lparr>activities := (activities s)
                          (activity_name \<mapsto> a\<lparr>participants := participants a @ [email]\<rparr>)\<rparr>)))"

text \<open>\<open>list.remove(x)\<close> deletes the first element equal to \<open>x\<close>: \<open>remove1\<close>.\<close>

definition unregister_from_activity ::
  "string \<Rightarrow> string \<Rightarrow> request \<Rightarrow> app_state \<Rightarrow> (error + reply) \<times> app_state" where
  "unregister_from_activity activity_name email r s =
     (case require_teacher r s of
        Inl e \<Rightarrow> (Inl e, s)
      | Inr _ \<Rightarrow>
          (case activities s activity_name of
             None \<Rightarrow> (Inl NotFound, s)
           | Some a \<Rightarrow>
               if email \<notin> set (participants a) then (Inl NotSignedUp, s)
               else (Inr [(''message'', ''Unregistered '' @ email @ '' from '' @ activity_name)],
                     s\<lparr>activities := (activities s)
                          (activity_name \<mapsto> a\<lparr>participants := remove1 email (participants a)\<rparr>)\<rparr>)))"

text \<open>
  \<open>admin_login\<close>. The value \<open>uuid.uuid4().hex\<close> returns in this call is the parameter
  \<open>token\<close>. The test \<open>username not in teachers\<close> hashes \<open>username\<close> and raises
  \<open>TypeError\<close> for a list or a dict; a hashable value that is not a string equals no key of
  \<open>teachers\<close>, and a stored password, a string, equals the supplied value only when that is
  the same string.
\<close>

definition admin_login ::
  "(string \<rightharpoonup> pyval) \<Rightarrow> string \<Rightarrow> app_state \<Rightarrow> (error + reply) \<times> app_state" where
  "admin_login payload token s =
     (let username = dict_get payload ''username'';
          password = dict_get payload ''password''
      in if \<not> truthy username \<or> \<not> truthy password then (Inl MissingField, s)
         else if \<not> hashable username then (Inl TypeError, s)
         else case username of
                PStr u \<Rightarrow>
                  (case teachers s u of
                     None \<Rightarrow> (Inl InvalidCredentials, s)
                   | Some stored \<Rightarrow>
                       if PStr stored \<noteq> password then (Inl InvalidCredentials, s)
                       else (Inr [(''message'', ''logged in''), (''token'', token)],
                             s\<lparr>sessions := (sessions s)(token \<mapsto> u)\<rparr>))
              | _ \<Rightarrow> (Inl InvalidCredentials, s))"

definition admin_logout :: "request \<Rightarrow> app_state \<Rightarrow> (error + reply) \<times> app_state" where
  "admin_logout r s =
     (let token = get_token_from_request r
      in case token of
           None \<Rightarrow> (Inr [(''message'', ''logged out'')], s)
         | Some t \<Rightarrow>
             if truthy_opt token \<and> sessions s t \<noteq> None
             then (Inr [(''message'', ''logged out'')], s\<lparr>sessions := (sessions s)(t := None)\<rparr>)
             else (Inr [(''message'', ''logged out'')], s))"

subsection \<open>Sequences of requests\<close>

text \<open>
  One request to the application, with what the handler receives; a login carries the
  token the generator produces for it.
\<close>

datatype call =
    GetActivities
  | Signup string string request
  | Unregister string string request
  | AdminLogin "string \<rightharpoonup> pyval" string
  | AdminLogout request

fun step :: "app_state \<Rightarrow> call \<Rightarrow> app_state" where
  "step s GetActivities = s"
| "step s (Signup activity_name email r) = snd (signup_for_activity activity_name email r s)"
| "step s (Unregister activity_name email r) = snd (unregister_from_activity activity_name email r s)"
| "step s (AdminLogin payload token) = snd (admin_login payload token s)"
| "step s (AdminLogout r) = snd (admin_logout r s)"

text \<open>The state after the startup event and a sequence of requests.\<close>

definition run :: "(string \<rightharpoonup> string) option \<Rightarrow> call list \<Rightarrow> app_state" where
  "run file calls = foldl step (startup_event file module_state) calls"

text \<open>No email appears twice in one activity's participant list.\<close>

definition no_duplicates :: "app_state \<Rightarrow> bool" where
  "no_duplicates s \<longleftrightarrow> (\<forall>name a. activities s name = Some a \<longrightarrow> distinct (participants a))"

text \<open>
  The shape of \<open>uuid.uuid4().hex\<close>: 32 lower-case hexadecimal digits, the version digit 4 at
  index 12 and a variant digit 8, 9, a or b at index 16.
\<close>

definition uuid4_hex :: "string \<Rightarrow> bool" where
  "uuid4_hex t \<longleftrightarrow>
     length t = 32 \<and> list_all (\<lambda>c. c \<in> set ''0123456789abcdef'') t \<and>
     t ! 12 = CHR ''4'' \<and> t ! 16 \<in> set ''89ab''"

subsection \<open>Example data\<close>

text \<open>
  A teacher file with two ordinary entries and one whose password is the empty string, a
  token of the generator's shape, a login payload, and a request carrying the token as
  the \<open>admin_token\<close> cookie.
\<close>

definition example_teachers :: "string \<rightharpoonup> string" where
  "example_teachers =
     [''alice'' \<mapsto> ''wonderland'', ''bob'' \<mapsto> [], ''carol'' \<mapsto> ''looking-glass'']"

definition example_token :: string where
  "example_token = ''0123456789ab4def8123456789abcdef''"

definition example_payload :: "string \<rightharpoonup> pyval" where
  "example_payload = [''username'' \<mapsto> PStr ''alice'', ''password'' \<mapsto> PStr ''wonderland'']"

definition example_request :: request where
  "example_request = \<lparr>cookies = [''admin_token'' \<mapsto> example_token], headers = Map.empty\<rparr>"

text \<open>A request with neither the cookie nor the header.\<close>

definition anonymous_request :: request where
  "anonymous_request = \<lparr>cookies = Map.empty, headers = Map.empty\<rparr>"

text \<open>The state after startup and one successful login of \<open>alice\<close>.\<close>

definition example_state :: app_state where
  "example_state = run (Some example_teachers) [AdminLogin example_payload example_token]"

text \<open>The seeded entry of the chess club, and the state after one more sign-up to it.\<close>

definition chess_club :: activity where
  "chess_club = \<lparr>
     description = ''Learn strategies and compete in chess tournaments'',
     schedule = ''Fridays, 3:30 PM - 5:00 PM'',
     max_participants = 12,
     participants = [''michael@mergington.edu'', ''daniel@mergington.edu'']\<rparr>"

definition example_signed_up :: app_state where
  "example_signed_up =
     snd (signup_for_activity ''Chess Club'' ''new@x.edu'' example_request example_state)"

text \<open>
  The seeded entry of the math club (at most 10 participants, 2 enrolled), and the state
  after eight more students have been signed up to it.
\<close>

definition math_club :: activity where
  "math_club = \<lparr>
     description = ''Solve challenging problems and participate in math competitions'',
     schedule = ''Tuesdays, 3:30 PM - 4:30 PM'',
     max_participants = 10,
     participants = [''james@mergington.edu'', ''benjamin@mergington.edu'']\<rparr>"

definition crowd :: "string list" where
  "crowd = [''s1@x.edu'', ''s2@x.edu'', ''s3@x.edu'', ''s4@x.edu'',
            ''s5@x.edu'', ''s6@x.edu'', ''s7@x.edu'', ''s8@x.edu'']"

definition example_full :: app_state where
  "example_full =
     foldl step example_state (map (\<lambda>e. Signup ''Math Club'' e example_request) crowd)"

text \<open>
  The state right after the startup event, and three more login payloads: \<open>bob\<close> with his
  stored (empty) password, \<open>carol\<close> with hers, and \<open>alice\<close> with a wrong one.
\<close>

definition started :: app_state where
  "started = startup_event (Some example_teachers) module_state"

definition bob_payload :: "string \<rightharpoonup> pyval" where
  "bob_payload = [''username'' \<mapsto> PStr ''bob'', ''password'' \<mapsto> PStr []]"

definition carol_payload :: "string \<rightharpoonup> pyval" where
  "carol_payload = [''username'' \<mapsto> PStr ''carol'', ''password'' \<mapsto> PStr ''looking-glass'']"

definition wrong_payload :: "string \<rightharpoonup> pyval" where
  "wrong_payload = [''username'' \<mapsto> PStr ''alice'', ''password'' \<mapsto> PStr ''rabbit'']"

section \<open>Properties\<close>

subsection \<open>Case lemmas of the handlers\<close>

lemma require_teacher_cases:
  "require_teacher r s = Inl Unauthenticated \<or> (\<exists>u. require_teacher r s = Inr u)"
  by (simp add: require_teacher_def Let_def split: option.splits)

lemma require_teacher_sessions:
  "sessions s' = sessions s \<Longrightarrow> require_teacher r s' = require_teacher r s"
  by (simp add: require_teacher_def Let_def split: option.splits)

lemma require_teacher_Inr_iff:
  "require_teacher r s = Inr u \<longleftrightarrow>
     (\<exists>t. get_token_from_request r = Some t \<and> t \<noteq> [] \<and> sessions s t = Some u)"
  by (auto simp add: require_teacher_def Let_def split: option.splits)

lemma require_teacher_Inl_iff:
  "require_teacher r s = Inl Unauthenticated \<longleftrightarrow>
     (case get_token_from_request r of None \<Rightarrow> True | Some t \<Rightarrow> t = [] \<or> sessions s t = None)"
  by (auto simp add: require_teacher_def Let_def split: option.splits)

lemma example_state_sessions:
  "sessions example_state = [example_token \<mapsto> ''alice'']"
  by (simp add: example_state_def run_def startup_event_def load_teachers_def module_state_def
      admin_login_def dict_get_def example_payload_def example_teachers_def Let_def)

lemma example_state_activities:
  "activities example_state = seed_activities"
  by (simp add: example_state_def run_def startup_event_def load_teachers_def module_state_def
      admin_login_def dict_get_def example_payload_def example_teachers_def Let_def)

lemma example_state_teachers:
  "teachers example_state = example_teachers"
  by (simp add: example_state_def run_def startup_event_def load_teachers_def module_state_def
      admin_login_def dict_get_def example_payload_def example_teachers_def Let_def)

lemma example_request_token:
  "get_token_from_request example_request = Some example_token"
  by (simp add: get_token_from_request_def example_request_def example_token_def)

lemma example_authenticated:
  "require_teacher example_request example_state = Inr ''alice''"
  by (simp add: require_teacher_Inr_iff example_request_token example_state_sessions example_token_def)

lemma uuid4_hex_example: "uuid4_hex example_token"
  by (simp add: uuid4_hex_def example_token_def)

lemma signup_unauthenticated:
  "require_teacher r s = Inl e \<Longrightarrow> signup_for_activity A E r s = (Inl e, s)"
  by (simp add: signup_for_activity_def)

lemma unregister_unauthenticated:
  "require_teacher r s = Inl e \<Longrightarrow> unregister_from_activity A E r s = (Inl e, s)"
  by (simp add: unregister_from_activity_def)

lemma signup_not_found:
  "require_teacher r s = Inr u \<Longrightarrow> activities s A = None \<Longrightarrow>
   signup_for_activity A E r s = (Inl NotFound, s)"
  by (simp add: signup_for_activity_def)

lemma unregister_not_found:
  "require_teacher r s = Inr u \<Longrightarrow> activities s A = None \<Longrightarrow>
   unregister_from_activity A E r s = (Inl NotFound, s)"
  by (simp add: unregister_from_activity_def)

lemma signup_already:
  "require_teacher r s = Inr u \<Longrightarrow> activities s A = Some a \<Longrightarrow> E \<in> set (participants a) \<Longrightarrow>
   signup_for_activity A E r s = (Inl AlreadySignedUp, s)"
  by (simp add: signup_for_activity_def)

lemma signup_ok:
  "require_teacher r s = Inr u \<Longrightarrow> activities s A = Some a \<Longrightarrow> E \<notin> set (participants a) \<Longrightarrow>
   signup_for_activity A E r s =
     (Inr [(''message'', ''Signed up '' @ E @ '' for '' @ A)],
      s\<lparr>activities := (activities s)(A \<mapsto> a\<lparr>participants := participants a @ [E]\<rparr>)\<rparr>)"
  by (simp add: signup_for_activity_def)

lemma unregister_not_signed_up:
  "require_teacher r s = Inr u \<Longrightarrow> activities s A = Some a \<Longrightarrow> E \<notin> set (participants a) \<Longrightarrow>
   unregister_from_activity A E r s = (Inl NotSignedUp, s)"
  by (simp add: unregister_from_activity_def)

lemma unregister_ok:
  "require_teacher r s = Inr u \<Longrightarrow> activities s A = Some a \<Longrightarrow> E \<in> set (participants a) \<Longrightarrow>
   unregister_from_activity A E r s =
     (Inr [(''message'', ''Unregistered '' @ E @ '' from '' @ A)],
      s\<lparr>activities := (activities s)(A \<mapsto> a\<lparr>participants := remove1 E (participants a)\<rparr>)\<rparr>)"
  by (simp add: unregister_from_activity_def)

subsection \<open>Order of the checks\<close>

text \<open>
  Claim C3. \<open>require_teacher\<close> either raises the 401 exception or returns a user name; it
  raises exactly when the request carries no token, an empty one, or one that is not a key
  of \<open>sessions\<close>. When it raises, sign-up and unregister raise the same exception whatever the activity name,
  known or not, and change nothing; when it returns and the activity name is not a key of
  \<open>activities\<close>, both raise the 404 exception and change nothing.
\<close>

theorem auth_checked_before_existence:
  "(require_teacher r s = Inl Unauthenticated \<or> (\<exists>u. require_teacher r s = Inr u)) \<and>
   (require_teacher r s = Inl Unauthenticated \<longleftrightarrow>
      (case get_token_from_request r of None \<Rightarrow> True | Some t \<Rightarrow> t = [] \<or> sessions s t = None)) \<and>
   (require_teacher r s = Inl Unauthenticated \<longrightarrow>
      signup_for_activity A E r s = (Inl Unauthenticated, s) \<and>
      unregister_from_activity A E r s = (Inl Unauthenticated, s)) \<and>
   (activities s A = None \<and> (\<exists>u. require_teacher r s = Inr u) \<longrightarrow>
      signup_for_activity A E r s = (Inl NotFound, s) \<and>
      unregister_from_activity A E r s = (Inl NotFound, s))"
  using require_teacher_cases [of r s] require_teacher_Inl_iff [of r s]
  by (auto simp add: signup_unauthenticated unregister_unauthenticated
      signup_not_found unregister_not_found)

theorem auth_checked_before_existence_witness:
  "require_teacher anonymous_request example_state = Inl Unauthenticated \<and>
   signup_for_activity ''Knitting Circle'' ''new@x.edu'' anonymous_request example_state =
     (Inl Unauthenticated, example_state) \<and>
   unregister_from_activity ''Knitting Circle'' ''new@x.edu'' anonymous_request example_state =
     (Inl Unauthenticated, example_state) \<and>
   activities example_state ''Knitting Circle'' = None \<and>
   require_teacher example_request example_state = Inr ''alice'' \<and>
   signup_for_activity ''Knitting Circle'' ''new@x.edu'' example_request example_state =
     (Inl NotFound, example_state) \<and>
   unregister_from_activity ''Knitting Circle'' ''new@x.edu'' example_request example_state =
     (Inl NotFound, example_state)"
proof -
  have anon: "require_teacher anonymous_request example_state = Inl Unauthenticated"
    by (simp add: require_teacher_def get_token_from_request_def anonymous_request_def)
  have absent: "activities example_state ''Knitting Circle'' = None"
    by (simp add: example_state_activities seed_activities_def)
  show ?thesis
    using anon absent example_authenticated
      auth_checked_before_existence
        [of anonymous_request example_state "''Knitting Circle''" "''new@x.edu''"]
      auth_checked_before_existence
        [of example_request example_state "''Knitting Circle''" "''new@x.edu''"]
    by simp
qed

subsection \<open>What each handler does to the activities\<close>

lemma activities_signup:
  "activities (snd (signup_for_activity A E r s)) = activities s \<or>
   (\<exists>a. activities s A = Some a \<and> E \<notin> set (participants a) \<and>
        activities (snd (signup_for_activity A E r s)) =
          (activities s)(A \<mapsto> a\<lparr>participants := participants a @ [E]\<rparr>))"
  by (simp add: signup_for_activity_def split: sum.splits option.splits)

lemma activities_unregister:
  "activities (snd (unregister_from_activity A E r s)) = activities s \<or>
   (\<exists>a. activities s A = Some a \<and> E \<in> set (participants a) \<and>
        activities (snd (unregister_from_activity A E r s)) =
          (activities s)(A \<mapsto> a\<lparr>participants := remove1 E (participants a)\<rparr>))"
  by (simp add: unregister_from_activity_def split: sum.splits option.splits)

lemma activities_login: "activities (snd (admin_login payload token s)) = activities s"
  by (simp add: admin_login_def Let_def split: pyval.splits option.splits)

lemma activities_logout: "activities (snd (admin_logout r s)) = activities s"
  by (simp add: admin_logout_def Let_def split: option.splits)

lemma no_duplicates_cong:
  "activities s' = activities s \<Longrightarrow> no_duplicates s' = no_duplicates s"
  by (simp add: no_duplicates_def)

lemma no_duplicates_same:
  "no_duplicates s \<Longrightarrow> activities s' = activities s \<Longrightarrow> no_duplicates s'"
  by (simp add: no_duplicates_def)

lemma no_duplicates_upd:
  "no_duplicates s \<Longrightarrow> distinct (participants a) \<Longrightarrow> activities s' = (activities s)(A \<mapsto> a) \<Longrightarrow>
   no_duplicates s'"
  by (simp add: no_duplicates_def)

lemma no_duplicates_signup:
  assumes "no_duplicates s"
  shows "no_duplicates (snd (signup_for_activity A E r s))"
proof -
  from activities_signup [of A E r s] show ?thesis
  proof
    assume "activities (snd (signup_for_activity A E r s)) = activities s"
    with assms show ?thesis by (rule no_duplicates_same)
  next
    assume "\<exists>a. activities s A = Some a \<and> E \<notin> set (participants a) \<and>
        activities (snd (signup_for_activity A E r s)) =
          (activities s)(A \<mapsto> a\<lparr>participants := participants a @ [E]\<rparr>)"
    then obtain a where a: "activities s A = Some a" "E \<notin> set (participants a)"
      and upd: "activities (snd (signup_for_activity A E r s)) =
          (activities s)(A \<mapsto> a\<lparr>participants := participants a @ [E]\<rparr>)"
      by blast
    from assms a have "distinct (participants (a\<lparr>participants := participants a @ [E]\<rparr>))"
      by (simp add: no_duplicates_def)
    from assms this upd show ?thesis by (rule no_duplicates_upd)
  qed
qed

lemma no_duplicates_unregister:
  assumes "no_duplicates s"
  shows "no_duplicates (snd (unregister_from_activity A E r s))"
proof -
  from activities_unregister [of A E r s] show ?thesis
  proof
    assume "activities (snd (unregister_from_activity A E r s)) = activities s"
    with assms show ?thesis by (rule no_duplicates_same)
  next
    assume "\<exists>a. activities s A = Some a \<and> E \<in> set (participants a) \<and>
        activities (snd (unregister_from_activity A E r s)) =
          (activities s)(A \<mapsto> a\<lparr>participants := remove1 E (participants a)\<rparr>)"
    then obtain a where a: "activities s A = Some a"
      and upd: "activities (snd (unregister_from_activity A E r s)) =
          (activities s)(A \<mapsto> a\<lparr>participants := remove1 E (participants a)\<rparr>)"
      by blast
    from assms a have "distinct (participants (a\<lparr>participants := remove1 E (participants a)\<rparr>))"
      by (simp add: no_duplicates_def)
    from assms this upd show ?thesis by (rule no_duplicates_upd)
  qed
qed

lemma no_duplicates_step: "no_duplicates s \<Longrightarrow> no_duplicates (step s c)"
  by (cases c)
    (simp_all add: no_duplicates_signup no_duplicates_unregister
      no_duplicates_cong [OF activities_login] no_duplicates_cong [OF activities_logout])

lemma no_duplicates_foldl: "no_duplicates s \<Longrightarrow> no_duplicates (foldl step s cs)"
  by (induction cs arbitrary: s) (simp_all add: no_duplicates_step)

lemma no_dup_map_empty:
  "\<forall>name a. (Map.empty :: string \<rightharpoonup> activity) name = Some a \<longrightarrow> distinct (participants a)"
  by simp

lemma no_dup_map_upd:
  "\<forall>name a. m name = Some a \<longrightarrow> distinct (participants a) \<Longrightarrow> distinct (participants v) \<Longrightarrow>
   \<forall>name a. (m(k \<mapsto> v)) name = Some a \<longrightarrow> distinct (participants a)"
  by simp

lemma no_duplicates_module_state: "no_duplicates module_state"
  unfolding no_duplicates_def module_state_def seed_activities_def app_state.simps
  by (intro no_dup_map_upd no_dup_map_empty) simp_all

lemma no_duplicates_startup: "no_duplicates (startup_event file module_state)"
  by (rule no_duplicates_same [OF no_duplicates_module_state])
    (simp add: startup_event_def load_teachers_def split: option.splits)

lemma no_duplicates_run: "no_duplicates (run file calls)"
  unfolding run_def by (rule no_duplicates_foldl [OF no_duplicates_startup])

subsection \<open>The example state\<close>

lemma seed_chess_club: "seed_activities ''Chess Club'' = Some chess_club"
  by (simp add: seed_activities_def chess_club_def)

lemma example_signed_up_eq:
  "example_signed_up =
     example_state\<lparr>activities := (activities example_state)
       (''Chess Club'' \<mapsto> chess_club\<lparr>participants := participants chess_club @ [''new@x.edu'']\<rparr>)\<rparr>"
  unfolding example_signed_up_def
  by (subst signup_ok [OF example_authenticated, of _ chess_club])
    (simp_all add: example_state_activities seed_chess_club, simp add: chess_club_def)

lemma example_signed_up_chess:
  "activities example_signed_up ''Chess Club'' =
     Some (chess_club\<lparr>participants :=
       [''michael@mergington.edu'', ''daniel@mergington.edu'', ''new@x.edu'']\<rparr>)"
  by (simp add: example_signed_up_eq) (simp add: chess_club_def)

subsection \<open>No duplicate participants\<close>

text \<open>
  Claim C5. No participant list of the seeded \<open>activities\<close> holds an email twice, before
  and after the startup event, and each of the five handlers keeps that: listing returns
  the dictionary as it is, sign-up appends only an email that is not in the list,
  unregister only removes, login and logout leave \<open>activities\<close> alone. Hence it holds in
  every state reached from startup by any sequence of requests.
\<close>

theorem no_duplicate_participants_invariant:
  "no_duplicates module_state \<and>
   no_duplicates (startup_event file module_state) \<and>
   (no_duplicates s \<longrightarrow>
      get_activities s = activities s \<and>
      no_duplicates (snd (signup_for_activity A E r s)) \<and>
      no_duplicates (snd (unregister_from_activity A E r s)) \<and>
      no_duplicates (snd (admin_login payload token s)) \<and>
      no_duplicates (snd (admin_logout r s)) \<and>
      no_duplicates (step s c)) \<and>
   no_duplicates (run file calls)"
  by (simp add: no_duplicates_module_state no_duplicates_startup no_duplicates_signup
      no_duplicates_unregister no_duplicates_step no_duplicates_run get_activities_def
      no_duplicates_cong [OF activities_login] no_duplicates_cong [OF activities_logout])

theorem no_duplicate_participants_invariant_witness:
  "no_duplicates example_state \<and>
   no_duplicates example_signed_up \<and>
   map_option participants (activities example_signed_up ''Chess Club'') =
     Some [''michael@mergington.edu'', ''daniel@mergington.edu'', ''new@x.edu''] \<and>
   distinct [''michael@mergington.edu'', ''daniel@mergington.edu'', ''new@x.edu'']"
proof -
  have start: "no_duplicates example_state"
    using no_duplicate_participants_invariant
      [of "Some example_teachers" example_state "''Chess Club''" "''new@x.edu''" example_request
        example_payload example_token GetActivities "[AdminLogin example_payload example_token]"]
    by (simp add: example_state_def)
  have after: "no_duplicates example_signed_up"
    using start no_duplicate_participants_invariant
      [of "Some example_teachers" example_state "''Chess Club''" "''new@x.edu''" example_request
        example_payload example_token GetActivities "[AdminLogin example_payload example_token]"]
    by (simp add: example_signed_up_def)
  have "distinct [''michael@mergington.edu'', ''daniel@mergington.edu'', ''new@x.edu'']"
    using after example_signed_up_chess by (auto simp add: no_duplicates_def)
  with start after show ?thesis
    by (simp add: example_signed_up_chess)
qed

subsection \<open>Sign-up and unregister\<close>

lemma signup_keeps_sessions:
  "sessions (snd (signup_for_activity A E r s)) = sessions s \<and>
   teachers (snd (signup_for_activity A E r s)) = teachers s"
  by (simp add: signup_for_activity_def split: sum.splits option.splits)

lemma unregister_keeps_sessions:
  "sessions (snd (unregister_from_activity A E r s)) = sessions s \<and>
   teachers (snd (unregister_from_activity A E r s)) = teachers s"
  by (simp add: unregister_from_activity_def split: sum.splits option.splits)

lemma count_list_remove1:
  "E \<in> set xs \<Longrightarrow>
   count_list xs x = count_list (remove1 E xs) x + (if x = E then 1 else 0)"
  by (induction xs) auto

lemma length_remove1_Suc: "E \<in> set xs \<Longrightarrow> length (remove1 E xs) + 1 = length xs"
  by (induction xs) auto

text \<open>
  Claim C1. For an authenticated request, an activity \<open>A\<close> of the store and an email \<open>E\<close>
  that is not among its participants, sign-up returns its message and appends \<open>E\<close> to the
  list, so the listing shows \<open>E\<close> in \<open>A\<close>; the same sign-up repeated in the new state raises
  the 400 exception ``Student is already signed up'' and leaves the state as it is, with
  \<open>E\<close> exactly once in the list.
\<close>

theorem signup_then_listed_then_refused:
  assumes "require_teacher r s = Inr u"
    and "activities s A = Some a"
    and "E \<notin> set (participants a)"
  shows "fst (signup_for_activity A E r s) = Inr [(''message'', ''Signed up '' @ E @ '' for '' @ A)] \<and>
    get_activities (snd (signup_for_activity A E r s)) A =
      Some (a\<lparr>participants := participants a @ [E]\<rparr>) \<and>
    E \<in> set (participants (a\<lparr>participants := participants a @ [E]\<rparr>)) \<and>
    signup_for_activity A E r (snd (signup_for_activity A E r s)) =
      (Inl AlreadySignedUp, snd (signup_for_activity A E r s)) \<and>
    count_list (participants (a\<lparr>participants := participants a @ [E]\<rparr>)) E = 1"
proof -
  let ?s' = "s\<lparr>activities := (activities s)(A \<mapsto> a\<lparr>participants := participants a @ [E]\<rparr>)\<rparr>"
  have first: "signup_for_activity A E r s =
      (Inr [(''message'', ''Signed up '' @ E @ '' for '' @ A)], ?s')"
    using assms by (rule signup_ok)
  have auth': "require_teacher r ?s' = Inr u"
    using assms(1) by (simp add: require_teacher_sessions [of ?s' s])
  have "activities ?s' A = Some (a\<lparr>participants := participants a @ [E]\<rparr>)"
    and "E \<in> set (participants (a\<lparr>participants := participants a @ [E]\<rparr>))"
    by simp_all
  with auth' have second: "signup_for_activity A E r ?s' = (Inl AlreadySignedUp, ?s')"
    by (rule signup_already)
  have "count_list (participants a) E = 0"
    using assms(3) by (simp add: count_list_0_iff)
  then show ?thesis
    using first second by (simp add: get_activities_def)
qed

theorem signup_then_listed_then_refused_witness:
  "require_teacher example_request example_state = Inr ''alice'' \<and>
   activities example_state ''Chess Club'' = Some chess_club \<and>
   ''new@x.edu'' \<notin> set (participants chess_club) \<and>
   fst (signup_for_activity ''Chess Club'' ''new@x.edu'' example_request example_state) =
     Inr [(''message'', ''Signed up new@x.edu for Chess Club'')] \<and>
   map_option participants (get_activities example_signed_up ''Chess Club'') =
     Some [''michael@mergington.edu'', ''daniel@mergington.edu'', ''new@x.edu''] \<and>
   signup_for_activity ''Chess Club'' ''new@x.edu'' example_request example_signed_up =
     (Inl AlreadySignedUp, example_signed_up)"
proof -
  have present: "activities example_state ''Chess Club'' = Some chess_club"
    by (simp add: example_state_activities seed_chess_club)
  have absent: "''new@x.edu'' \<notin> set (participants chess_club)"
    by (simp add: chess_club_def)
  show ?thesis
    using signup_then_listed_then_refused [OF example_authenticated present absent]
      example_authenticated present absent
    by (simp add: example_signed_up_def [symmetric] example_signed_up_chess get_activities_def
        chess_club_def)
qed

text \<open>
  Claim C2. In every state the application reaches from startup, for an authenticated
  request, an activity \<open>A\<close> of the store and an email \<open>E\<close> among its participants,
  unregister returns its message and removes one occurrence of \<open>E\<close> (the list is one
  shorter, the count of \<open>E\<close> one less, every other count the same); the same call repeated
  at once raises the 400 exception ``Student is not signed up for this activity'' and
  changes nothing.
\<close>

theorem unregister_removes_one_then_fails:
  assumes "s = run file calls"
    and "require_teacher r s = Inr u"
    and "activities s A = Some a"
    and "E \<in> set (participants a)"
  shows "fst (unregister_from_activity A E r s) =
      Inr [(''message'', ''Unregistered '' @ E @ '' from '' @ A)] \<and>
    snd (unregister_from_activity A E r s) =
      s\<lparr>activities := (activities s)(A \<mapsto> a\<lparr>participants := remove1 E (participants a)\<rparr>)\<rparr> \<and>
    length (remove1 E (participants a)) + 1 = length (participants a) \<and>
    (\<forall>x. count_list (participants a) x =
        count_list (remove1 E (participants a)) x + (if x = E then 1 else 0)) \<and>
    unregister_from_activity A E r (snd (unregister_from_activity A E r s)) =
      (Inl NotSignedUp, snd (unregister_from_activity A E r s))"
proof -
  let ?s' = "s\<lparr>activities := (activities s)(A \<mapsto> a\<lparr>participants := remove1 E (participants a)\<rparr>)\<rparr>"
  have first: "unregister_from_activity A E r s =
      (Inr [(''message'', ''Unregistered '' @ E @ '' from '' @ A)], ?s')"
    using assms(2-4) by (rule unregister_ok)
  have "no_duplicates s"
    unfolding assms(1) by (rule no_duplicates_run)
  with assms(3) have "distinct (participants a)"
    by (simp add: no_duplicates_def)
  then have gone: "E \<notin> set (remove1 E (participants a))"
    by simp
  have auth': "require_teacher r ?s' = Inr u"
    using assms(2) by (simp add: require_teacher_sessions [of ?s' s])
  have "activities ?s' A = Some (a\<lparr>participants := remove1 E (participants a)\<rparr>)"
    and "E \<notin> set (participants (a\<lparr>participants := remove1 E (participants a)\<rparr>))"
    using gone by simp_all
  with auth' have second: "unregister_from_activity A E r ?s' = (Inl NotSignedUp, ?s')"
    by (rule unregister_not_signed_up)
  show ?thesis
    using first second count_list_remove1 [OF assms(4)] length_remove1_Suc [OF assms(4)]
    by simp
qed

theorem unregister_removes_one_then_fails_witness:
  "example_state = run (Some example_teachers) [AdminLogin example_payload example_token] \<and>
   require_teacher example_request example_state = Inr ''alice'' \<and>
   activities example_state ''Chess Club'' = Some chess_club \<and>
   ''michael@mergington.edu'' \<in> set (participants chess_club) \<and>
   fst (unregister_from_activity ''Chess Club'' ''michael@mergington.edu'' example_request
          example_state) =
     Inr [(''message'', ''Unregistered michael@mergington.edu from Chess Club'')] \<and>
   map_option participants
     (activities (snd (unregister_from_activity ''Chess Club'' ''michael@mergington.edu''
        example_request example_state)) ''Chess Club'') = Some [''daniel@mergington.edu''] \<and>
   fst (unregister_from_activity ''Chess Club'' ''michael@mergington.edu'' example_request
         (snd (unregister_from_activity ''Chess Club'' ''michael@mergington.edu''
            example_request example_state))) = Inl NotSignedUp"
proof -
  have present: "activities example_state ''Chess Club'' = Some chess_club"
    by (simp add: example_state_activities seed_chess_club)
  have enrolled: "''michael@mergington.edu'' \<in> set (participants chess_club)"
    by (simp add: chess_club_def)
  note all = unregister_removes_one_then_fails
    [OF example_state_def example_authenticated present enrolled]
  from all have reply: "fst (unregister_from_activity ''Chess Club'' ''michael@mergington.edu''
      example_request example_state) =
      Inr [(''message'', ''Unregistered michael@mergington.edu from Chess Club'')]"
    by simp
  from all have "snd (unregister_from_activity ''Chess Club'' ''michael@mergington.edu''
      example_request example_state) =
      example_state\<lparr>activities := (activities example_state)(''Chess Club'' \<mapsto>
        chess_club\<lparr>participants := remove1 ''michael@mergington.edu'' (participants chess_club)\<rparr>)\<rparr>"
    by (rule conjunct2 [THEN conjunct1])
  then have left: "map_option participants
     (activities (snd (unregister_from_activity ''Chess Club'' ''michael@mergington.edu''
        example_request example_state)) ''Chess Club'') = Some [''daniel@mergington.edu'']"
    by (simp add: chess_club_def)
  from all have "unregister_from_activity ''Chess Club'' ''michael@mergington.edu'' example_request
      (snd (unregister_from_activity ''Chess Club'' ''michael@mergington.edu''
         example_request example_state)) =
      (Inl NotSignedUp, snd (unregister_from_activity ''Chess Club'' ''michael@mergington.edu''
         example_request example_state))"
    by (rule conjunct2 [THEN conjunct2, THEN conjunct2, THEN conjunct2])
  then have again: "fst (unregister_from_activity ''Chess Club'' ''michael@mergington.edu''
      example_request (snd (unregister_from_activity ''Chess Club'' ''michael@mergington.edu''
         example_request example_state))) = Inl NotSignedUp"
    by (simp only: fst_conv)
  from example_state_def example_authenticated present enrolled reply left again
  show ?thesis by (intro conjI)
qed

text \<open>
  Several sign-ups in a row: each new email is appended, however long the list already is.
\<close>

lemma seed_math_club: "seed_activities ''Math Club'' = Some math_club"
  by (simp add: seed_activities_def math_club_def)

lemma signup_many:
  "require_teacher r s = Inr u \<Longrightarrow> activities s A = Some a \<Longrightarrow> distinct es \<Longrightarrow>
   set es \<inter> set (participants a) = {} \<Longrightarrow>
   foldl step s (map (\<lambda>e. Signup A e r) es) =
     s\<lparr>activities := (activities s)(A \<mapsto> a\<lparr>participants := participants a @ es\<rparr>)\<rparr>"
proof (induction es arbitrary: s a)
  case Nil
  then show ?case by (simp add: map_upd_triv)
next
  case (Cons e es)
  let ?a' = "a\<lparr>participants := participants a @ [e]\<rparr>"
  let ?s' = "s\<lparr>activities := (activities s)(A \<mapsto> ?a')\<rparr>"
  from Cons.prems have "e \<notin> set (participants a)"
    by auto
  with Cons.prems(1,2) have one: "step s (Signup A e r) = ?s'"
    by (simp add: signup_ok)
  have auth': "require_teacher r ?s' = Inr u"
    using Cons.prems(1) by (simp add: require_teacher_sessions [of ?s' s])
  have rest: "foldl step ?s' (map (\<lambda>e. Signup A e r) es) =
      ?s'\<lparr>activities := (activities ?s')(A \<mapsto> ?a'\<lparr>participants := participants ?a' @ es\<rparr>)\<rparr>"
    using Cons.prems by (intro Cons.IH [OF auth']) auto
  have "foldl step s (map (\<lambda>e. Signup A e r) (e # es)) =
      foldl step ?s' (map (\<lambda>e. Signup A e r) es)"
    by (simp only: list.map foldl_Cons one)
  also note rest
  also have "?s'\<lparr>activities := (activities ?s')(A \<mapsto> ?a'\<lparr>participants := participants ?a' @ es\<rparr>)\<rparr> =
      s\<lparr>activities := (activities s)(A \<mapsto> a\<lparr>participants := participants a @ e # es\<rparr>)\<rparr>"
    by simp
  finally show ?case .
qed

lemma example_full_eq:
  "example_full = example_state\<lparr>activities := (activities example_state)
     (''Math Club'' \<mapsto> math_club\<lparr>participants := participants math_club @ crowd\<rparr>)\<rparr>"
  unfolding example_full_def
  by (rule signup_many [OF example_authenticated])
    (simp_all add: example_state_activities seed_math_club, simp_all add: crowd_def math_club_def)

lemma example_full_authenticated: "require_teacher example_request example_full = Inr ''alice''"
proof -
  have "sessions example_full = sessions example_state"
    by (simp add: example_full_eq)
  from require_teacher_sessions [OF this] show ?thesis
    by (simp add: example_authenticated)
qed

text \<open>
  Claim C8. Sign-up never looks at \<open>max_participants\<close>: for an authenticated request, an
  activity of the store whose list is already as long as \<open>max_participants\<close> or longer, and
  an email not in the list, sign-up succeeds and appends the email, and the list is then
  longer than \<open>max_participants\<close>.
\<close>

theorem signup_ignores_capacity:
  assumes "require_teacher r s = Inr u"
    and "activities s A = Some a"
    and "E \<notin> set (participants a)"
    and "max_participants a \<le> int (length (participants a))"
  shows "signup_for_activity A E r s =
      (Inr [(''message'', ''Signed up '' @ E @ '' for '' @ A)],
       s\<lparr>activities := (activities s)(A \<mapsto> a\<lparr>participants := participants a @ [E]\<rparr>)\<rparr>) \<and>
    max_participants a < int (length (participants a @ [E]))"
  using assms(4) signup_ok [OF assms(1-3)] by simp

theorem signup_ignores_capacity_witness:
  "require_teacher example_request example_full = Inr ''alice'' \<and>
   map_option max_participants (activities example_full ''Math Club'') = Some 10 \<and>
   map_option (length \<circ> participants) (activities example_full ''Math Club'') = Some 10 \<and>
   fst (signup_for_activity ''Math Club'' ''late@x.edu'' example_request example_full) =
     Inr [(''message'', ''Signed up late@x.edu for Math Club'')] \<and>
   map_option (length \<circ> participants)
     (activities (snd (signup_for_activity ''Math Club'' ''late@x.edu'' example_request example_full))
        ''Math Club'') = Some 11"
proof -
  let ?a = "math_club\<lparr>participants := participants math_club @ crowd\<rparr>"
  have present: "activities example_full ''Math Club'' = Some ?a"
    by (simp add: example_full_eq)
  have absent: "''late@x.edu'' \<notin> set (participants ?a)"
    by (simp add: math_club_def crowd_def)
  have full: "max_participants ?a \<le> int (length (participants ?a))"
    by (simp add: math_club_def crowd_def)
  show ?thesis
    using signup_ignores_capacity [OF example_full_authenticated present absent full]
      example_full_authenticated present
    by (simp add: math_club_def crowd_def)
qed

text \<open>
  Claim C9. After any sign-up or unregister call, failing or not, the activity names are
  the same, every activity has the description, schedule and \<open>max_participants\<close> it had, every
  activity but the named one is untouched, and \<open>teachers\<close> and \<open>sessions\<close> are untouched.
\<close>

theorem signup_unregister_frame:
  assumes "s' = snd (signup_for_activity A E r s) \<or> s' = snd (unregister_from_activity A E r s)"
  shows "dom (activities s') = dom (activities s) \<and>
    (\<forall>n a a'. activities s n = Some a \<and> activities s' n = Some a' \<longrightarrow>
       description a' = description a \<and> schedule a' = schedule a \<and>
       max_participants a' = max_participants a) \<and>
    (\<forall>n. n \<noteq> A \<longrightarrow> activities s' n = activities s n) \<and>
    teachers s' = teachers s \<and> sessions s' = sessions s"
proof -
  have act: "activities s' = activities s \<or>
    (\<exists>a ps. activities s A = Some a \<and> activities s' = (activities s)(A \<mapsto> a\<lparr>participants := ps\<rparr>))"
    using assms activities_signup [of A E r s] activities_unregister [of A E r s] by blast
  have rest: "teachers s' = teachers s \<and> sessions s' = sessions s"
    using assms signup_keeps_sessions [of A E r s] unregister_keeps_sessions [of A E r s] by auto
  from act have "dom (activities s') = dom (activities s)"
    by (auto split: if_splits)
  moreover from act have "\<forall>n a a'. activities s n = Some a \<and> activities s' n = Some a' \<longrightarrow>
       description a' = description a \<and> schedule a' = schedule a \<and>
       max_participants a' = max_participants a"
    by (auto split: if_splits)
  moreover from act have "\<forall>n. n \<noteq> A \<longrightarrow> activities s' n = activities s n"
    by auto
  ultimately show ?thesis using rest by simp
qed

theorem signup_unregister_frame_witness:
  "example_signed_up =
     snd (signup_for_activity ''Chess Club'' ''new@x.edu'' example_request example_state) \<and>
   dom (activities example_signed_up) = dom (activities example_state) \<and>
   map_option max_participants (activities example_signed_up ''Chess Club'') = Some 12 \<and>
   activities example_signed_up ''Math Club'' = activities example_state ''Math Club'' \<and>
   teachers example_signed_up = teachers example_state \<and>
   sessions example_signed_up = sessions example_state"
proof -
  have "example_signed_up =
      snd (signup_for_activity ''Chess Club'' ''new@x.edu'' example_request example_state) \<or>
    example_signed_up =
      snd (unregister_from_activity ''Chess Club'' ''new@x.edu'' example_request example_state)"
    by (simp add: example_signed_up_def)
  from signup_unregister_frame [OF this] show ?thesis
    by (simp add: example_signed_up_def [symmetric] example_signed_up_chess chess_club_def)
qed

subsection \<open>Login and logout\<close>

lemma login_missing:
  "\<not> truthy (dict_get payload ''username'') \<or> \<not> truthy (dict_get payload ''password'') \<Longrightarrow>
   admin_login payload token s = (Inl MissingField, s)"
  by (simp add: admin_login_def Let_def)

text \<open>A list or a dict as user name: the membership test raises before any comparison.\<close>

lemma login_unhashable:
  "truthy (dict_get payload ''username'') \<Longrightarrow> truthy (dict_get payload ''password'') \<Longrightarrow>
   \<not> hashable (dict_get payload ''username'') \<Longrightarrow>
   admin_login payload token s = (Inl TypeError, s)"
  by (simp add: admin_login_def Let_def)

lemma login_strings:
  "payload ''username'' = Some (PStr u) \<Longrightarrow> payload ''password'' = Some (PStr p) \<Longrightarrow>
   u \<noteq> [] \<Longrightarrow> p \<noteq> [] \<Longrightarrow>
   admin_login payload token s =
     (if teachers s u = Some p
      then (Inr [(''message'', ''logged in''), (''token'', token)],
            s\<lparr>sessions := (sessions s)(token \<mapsto> u)\<rparr>)
      else (Inl InvalidCredentials, s))"
  by (auto simp add: admin_login_def dict_get_def Let_def split: option.splits)

lemma login_error_unchanged:
  "fst (admin_login payload token s) = Inl e \<Longrightarrow> snd (admin_login payload token s) = s"
  by (auto simp add: admin_login_def Let_def split: if_splits pyval.splits option.splits)

lemma login_success:
  "fst (admin_login payload token s) = Inr rep \<Longrightarrow>
   \<exists>u p. payload ''username'' = Some (PStr u) \<and> payload ''password'' = Some (PStr p) \<and>
     u \<noteq> [] \<and> p \<noteq> [] \<and> teachers s u = Some p \<and>
     admin_login payload token s =
       (Inr [(''message'', ''logged in''), (''token'', token)],
        s\<lparr>sessions := (sessions s)(token \<mapsto> u)\<rparr>)"
  by (auto simp add: admin_login_def dict_get_def Let_def
      split: if_splits pyval.splits option.splits)

lemma logout_reply: "fst (admin_logout r s) = Inr [(''message'', ''logged out'')]"
  by (simp add: admin_logout_def Let_def split: option.splits)

lemma logout_sessions:
  "get_token_from_request r = Some t \<Longrightarrow> t \<noteq> [] \<Longrightarrow>
   sessions (snd (admin_logout r s)) t = None"
  by (simp add: admin_logout_def Let_def)

lemma logout_absent:
  "get_token_from_request r = Some t \<Longrightarrow> sessions s t = None \<Longrightarrow> snd (admin_logout r s) = s"
  by (simp add: admin_logout_def Let_def)

lemma uuid4_hex_nonempty: "uuid4_hex t \<Longrightarrow> t \<noteq> []"
  by (auto simp add: uuid4_hex_def)

lemma example_state_started:
  "example_state = snd (admin_login example_payload example_token started)"
  by (simp add: example_state_def run_def started_def)

lemma started_teachers: "teachers started = example_teachers"
  by (simp add: started_def startup_event_def load_teachers_def)

lemma started_sessions: "sessions started = Map.empty"
  by (simp add: started_def startup_event_def load_teachers_def module_state_def)

lemma example_payload_fields:
  "example_payload ''username'' = Some (PStr ''alice'')"
  "example_payload ''password'' = Some (PStr ''wonderland'')"
  by (simp_all add: example_payload_def)

lemma example_login:
  "fst (admin_login example_payload example_token started) =
     Inr [(''message'', ''logged in''), (''token'', example_token)]"
  by (simp add: login_strings [OF example_payload_fields] started_teachers example_teachers_def)

text \<open>
  Claim C10. A login payload whose \<open>username\<close> or \<open>password\<close> is present and is the empty
  string fails the test \<open>not username or not password\<close>: login raises the 400 exception
  ``username and password required'' and changes nothing, whatever \<open>teachers\<close> holds, also
  when the empty string is the password stored for that user name.
\<close>

theorem empty_field_is_missing:
  assumes "payload ''username'' = Some (PStr []) \<or> payload ''password'' = Some (PStr [])"
  shows "admin_login payload token s = (Inl MissingField, s)"
  using assms by (intro login_missing) (auto simp add: dict_get_def)

theorem empty_field_is_missing_witness:
  "teachers started ''bob'' = Some [] \<and>
   bob_payload ''password'' = Some (PStr []) \<and>
   admin_login bob_payload example_token started = (Inl MissingField, started) \<and>
   admin_login [''username'' \<mapsto> PStr [], ''password'' \<mapsto> PStr ''wonderland'']
     example_token started = (Inl MissingField, started)"
proof -
  have "bob_payload ''username'' = Some (PStr []) \<or> bob_payload ''password'' = Some (PStr [])"
    by (simp add: bob_payload_def)
  from empty_field_is_missing [OF this]
  have one: "admin_login bob_payload example_token started = (Inl MissingField, started)" .
  let ?q = "[''username'' \<mapsto> PStr [], ''password'' \<mapsto> PStr ''wonderland'']"
  have "?q ''username'' = Some (PStr []) \<or> ?q ''password'' = Some (PStr [])"
    by simp
  from empty_field_is_missing [OF this]
  have two: "admin_login ?q example_token started = (Inl MissingField, started)" .
  show ?thesis
    using one two by (simp add: started_teachers example_teachers_def bob_payload_def)
qed

text \<open>
  Claim C6. For a user name and a password that are both non-empty strings (the fields pass
  the missing-field test), login raises the 401 exception ``invalid credentials'' exactly
  when the user name is not a key of \<open>teachers\<close> or the stored password differs from the
  supplied one; and whenever login raises, the state, in particular \<open>sessions\<close>, is
  unchanged.
\<close>

theorem invalid_credentials_iff:
  assumes "payload ''username'' = Some (PStr u)"
    and "payload ''password'' = Some (PStr p)"
    and "u \<noteq> []" and "p \<noteq> []"
  shows "(fst (admin_login payload token s) = Inl InvalidCredentials \<longleftrightarrow>
      u \<notin> dom (teachers s) \<or> teachers s u \<noteq> Some p) \<and>
    (\<forall>e. fst (admin_login payload token s) = Inl e \<longrightarrow>
      snd (admin_login payload token s) = s \<and> sessions (snd (admin_login payload token s)) = sessions s)"
proof -
  have "fst (admin_login payload token s) = Inl InvalidCredentials \<longleftrightarrow>
      u \<notin> dom (teachers s) \<or> teachers s u \<noteq> Some p"
    by (auto simp add: login_strings [OF assms])
  moreover have "\<forall>e. fst (admin_login payload token s) = Inl e \<longrightarrow>
      snd (admin_login payload token s) = s \<and> sessions (snd (admin_login payload token s)) = sessions s"
    by (simp add: login_error_unchanged)
  ultimately show ?thesis by simp
qed

theorem invalid_credentials_iff_witness:
  "wrong_payload ''username'' = Some (PStr ''alice'') \<and>
   wrong_payload ''password'' = Some (PStr ''rabbit'') \<and>
   teachers example_state ''alice'' = Some ''wonderland'' \<and>
   fst (admin_login wrong_payload example_token example_state) = Inl InvalidCredentials \<and>
   snd (admin_login wrong_payload example_token example_state) = example_state"
proof -
  have u: "wrong_payload ''username'' = Some (PStr ''alice'')"
    and p: "wrong_payload ''password'' = Some (PStr ''rabbit'')"
    by (simp_all add: wrong_payload_def)
  have stored: "teachers example_state ''alice'' = Some ''wonderland''"
    by (simp add: example_state_teachers example_teachers_def)
  from invalid_credentials_iff [OF u p, of example_token example_state] stored u p
  show ?thesis by simp
qed

text \<open>
  Claim C7, as amended. For every entry \<open>(u, p)\<close> of \<open>teachers\<close> with \<open>u\<close> and \<open>p\<close> non-empty,
  a login with \<open>u\<close> and \<open>p\<close> returns the generated token \<open>T\<close>; a request carrying
  \<open>T\<close> then resolves to \<open>u\<close>; after a logout with that request it is refused with the 401
  exception; a second logout with the same request returns ``logged out'' again and changes
  nothing, and logout returns ``logged out'' for every request in every state.
\<close>

theorem login_session_logout:
  assumes "teachers s u = Some p" and "u \<noteq> []" and "p \<noteq> []"
    and "payload ''username'' = Some (PStr u)"
    and "payload ''password'' = Some (PStr p)"
    and "uuid4_hex token"
    and "get_token_from_request r = Some token"
  shows "fst (admin_login payload token s) = Inr [(''message'', ''logged in''), (''token'', token)] \<and>
    require_teacher r (snd (admin_login payload token s)) = Inr u \<and>
    fst (admin_logout r (snd (admin_login payload token s))) = Inr [(''message'', ''logged out'')] \<and>
    require_teacher r (snd (admin_logout r (snd (admin_login payload token s)))) =
      Inl Unauthenticated \<and>
    admin_logout r (snd (admin_logout r (snd (admin_login payload token s)))) =
      (Inr [(''message'', ''logged out'')], snd (admin_logout r (snd (admin_login payload token s)))) \<and>
    (\<forall>r' s'. fst (admin_logout r' s') = Inr [(''message'', ''logged out'')])"
proof -
  let ?s1 = "snd (admin_login payload token s)"
  let ?s2 = "snd (admin_logout r ?s1)"
  have login: "admin_login payload token s =
      (Inr [(''message'', ''logged in''), (''token'', token)],
       s\<lparr>sessions := (sessions s)(token \<mapsto> u)\<rparr>)"
    using assms(1) by (simp add: login_strings [OF assms(4,5,2,3)])
  have nonempty: "token \<noteq> []"
    using assms(6) by (rule uuid4_hex_nonempty)
  have in1: "require_teacher r ?s1 = Inr u"
    using assms(7) nonempty by (simp add: require_teacher_Inr_iff login)
  have gone: "sessions ?s2 token = None"
    using assms(7) nonempty by (rule logout_sessions)
  have out2: "require_teacher r ?s2 = Inl Unauthenticated"
    using require_teacher_cases [of r ?s2] gone assms(7)
    by (auto simp add: require_teacher_Inr_iff)
  have again: "admin_logout r ?s2 = (Inr [(''message'', ''logged out'')], ?s2)"
    using logout_reply [of r ?s2] logout_absent [OF assms(7) gone]
    by (simp add: prod_eq_iff)
  show ?thesis
    using login in1 out2 again by (simp add: logout_reply)
qed

theorem login_session_logout_witness:
  "teachers started ''alice'' = Some ''wonderland'' \<and>
   uuid4_hex example_token \<and>
   get_token_from_request example_request = Some example_token \<and>
   fst (admin_login example_payload example_token started) =
     Inr [(''message'', ''logged in''), (''token'', example_token)] \<and>
   require_teacher example_request example_state = Inr ''alice'' \<and>
   require_teacher example_request (snd (admin_logout example_request example_state)) =
     Inl Unauthenticated \<and>
   fst (admin_logout example_request (snd (admin_logout example_request example_state))) =
     Inr [(''message'', ''logged out'')]"
proof -
  have stored: "teachers started ''alice'' = Some ''wonderland''"
    by (simp add: started_teachers example_teachers_def)
  have "''alice'' \<noteq> []" and "''wonderland'' \<noteq> []"
    by simp_all
  from login_session_logout [OF stored this example_payload_fields uuid4_hex_example
      example_request_token]
  show ?thesis
    using stored uuid4_hex_example example_request_token
    by (simp add: example_state_started [symmetric])
qed

text \<open>
  The claim as first stated, for every entry of \<open>teachers\<close>, fails for an entry with an
  empty password: \<open>bob\<close> logs in with his stored password and is answered with the
  400 exception, and no session is created.
\<close>

theorem login_session_logout_counterexample:
  "teachers example_state ''bob'' = Some [] \<and>
   bob_payload ''username'' = Some (PStr ''bob'') \<and>
   bob_payload ''password'' = Some (PStr []) \<and>
   fst (admin_login bob_payload example_token example_state) = Inl MissingField \<and>
   sessions (snd (admin_login bob_payload example_token example_state)) = sessions example_state"
proof -
  have "\<not> truthy (dict_get bob_payload ''username'') \<or> \<not> truthy (dict_get bob_payload ''password'')"
    by (simp add: bob_payload_def dict_get_def)
  from login_missing [OF this, of example_token example_state] show ?thesis
    by (simp add: example_state_teachers example_teachers_def bob_payload_def)
qed

text \<open>
  Claim C4, as amended. A successful login writes the generated token into \<open>sessions\<close>
  with the user name and touches no other key. The handler never compares the token with
  the keys of \<open>sessions\<close>: when the generated token is not yet a key, \<open>sessions\<close> gains
  exactly that key and every existing session is kept.
\<close>

theorem login_stores_generated_token:
  assumes "fst (admin_login payload token s) = Inr rep"
  shows "\<exists>u. payload ''username'' = Some (PStr u) \<and>
    rep = [(''message'', ''logged in''), (''token'', token)] \<and>
    snd (admin_login payload token s) = s\<lparr>sessions := (sessions s)(token \<mapsto> u)\<rparr> \<and>
    (\<forall>t. t \<noteq> token \<longrightarrow> sessions (snd (admin_login payload token s)) t = sessions s t) \<and>
    (sessions s token = None \<longrightarrow>
       dom (sessions (snd (admin_login payload token s))) = insert token (dom (sessions s)) \<and>
       (\<forall>t\<in>dom (sessions s). sessions (snd (admin_login payload token s)) t = sessions s t))"
proof -
  from login_success [OF assms] obtain u where
    u: "payload ''username'' = Some (PStr u)" and
    run: "admin_login payload token s =
       (Inr [(''message'', ''logged in''), (''token'', token)],
        s\<lparr>sessions := (sessions s)(token \<mapsto> u)\<rparr>)"
    by blast
  from run assms have "rep = [(''message'', ''logged in''), (''token'', token)]"
    by simp
  with u run show ?thesis by auto
qed

theorem login_stores_generated_token_witness:
  "fst (admin_login example_payload example_token started) =
     Inr [(''message'', ''logged in''), (''token'', example_token)] \<and>
   sessions started example_token = None \<and>
   sessions example_state example_token = Some ''alice'' \<and>
   dom (sessions example_state) = {example_token}"
proof -
  from login_stores_generated_token [OF example_login] obtain u where
    u: "example_payload ''username'' = Some (PStr u)" and
    st: "snd (admin_login example_payload example_token started) =
      started\<lparr>sessions := (sessions started)(example_token \<mapsto> u)\<rparr>"
    by blast
  from u have "u = ''alice''"
    by (simp add: example_payload_def)
  with st have "sessions example_state = (sessions started)(example_token \<mapsto> ''alice'')"
    by (simp add: example_state_started)
  then show ?thesis
    using example_login by (simp add: started_sessions)
qed

text \<open>
  The claim as first stated, that the token is never already a key, fails when the
  generator returns a token that is in use: with \<open>alice\<close> logged in under a token, a
  login of \<open>carol\<close> for which the generator returns the same token succeeds and replaces
  the session of \<open>alice\<close>.
\<close>

theorem login_stores_generated_token_counterexample:
  "uuid4_hex example_token \<and>
   sessions example_state example_token = Some ''alice'' \<and>
   fst (admin_login carol_payload example_token example_state) =
     Inr [(''message'', ''logged in''), (''token'', example_token)] \<and>
   sessions (snd (admin_login carol_payload example_token example_state)) example_token =
     Some ''carol''"
proof -
  have "carol_payload ''username'' = Some (PStr ''carol'')"
    and "carol_payload ''password'' = Some (PStr ''looking-glass'')"
    and "''carol'' \<noteq> []" and "''looking-glass'' \<noteq> []"
    by (simp_all add: carol_payload_def)
  from login_strings [OF this, of example_token example_state] show ?thesis
    by (simp add: uuid4_hex_example example_state_sessions example_state_teachers
        example_teachers_def)
qed

end
